theory Spec2Isabelle
  imports Main
begin

section \<open>The Blustream media_player platform: data model\<close>

text \<open>
  The module \<^verbatim>\<open>custom_components/blustream/media_player.py\<close> has three classes:
  \<^verbatim>\<open>MyListener\<close>, which receives the callbacks of the device library and forwards them,
  \<^verbatim>\<open>MatrixEntity\<close> (the matrix as a whole) and \<^verbatim>\<open>MatrixOutput\<close> (one output of it).
  Entities are Python objects that are shared by reference between the listener and the
  host platform, so the model keeps them in a store indexed by object address; the
  listener holds addresses. Python never holds a dangling reference, hence every address
  of the store holds an object (the store is a total function).
\<close>

text \<open>
  The members of the host platform's \<^verbatim>\<open>MediaPlayerState\<close> enumeration that the module
  uses. Python's \<^verbatim>\<open>None\<close> (state unknown) is \<open>None\<close> of \<open>MediaPlayerState option\<close>.
\<close>

datatype MediaPlayerState = ON | OFF

text \<open>The exceptions that can reach the module.\<close>

datatype exn = AttributeError | KeyError int | OtherError string

text \<open>The five CEC methods of the device library that \<^verbatim>\<open>MatrixOutput\<close> calls.\<close>

datatype cec_cmd =
    send_cec_power_on
  | send_cec_power_off
  | send_cec_volume_up
  | send_cec_volume_down
  | send_cec_mute

text \<open>
  The \<^verbatim>\<open>Matrix\<close> object of the device library, as far as the module reads it: the
  input catalog in both directions and, for every method the module calls, what the call
  does. A CEC method may be missing from the installed library (\<open>has_cec\<close> is false;
  reading the attribute raises \<^verbatim>\<open>AttributeError\<close>); a method that exists returns
  or raises what \<open>cec_raises\<close> and \<open>change_source_raises\<close> say (\<open>None\<close>: it returns).
\<close>

record Matrix =
  input_names :: "string list"
  inputs_by_id :: "int \<rightharpoonup> string"
  inputs_by_name :: "string \<rightharpoonup> int"
  has_cec :: "cec_cmd \<Rightarrow> bool"
  cec_raises :: "cec_cmd \<Rightarrow> int \<Rightarrow> exn option"
  change_source_raises :: "int \<Rightarrow> int \<Rightarrow> exn option"

text \<open>
  \<^verbatim>\<open>MatrixEntity\<close> and \<^verbatim>\<open>MatrixOutput\<close>: the attributes the methods read and write.
  \<open>e_matrix\<close> and \<open>o_matrix\<close> are \<^verbatim>\<open>self._matrix\<close> (the address of the Matrix),
  \<open>e_attr_state\<close> and \<open>o_attr_state\<close> are \<^verbatim>\<open>self._attr_state\<close>, \<open>o_attr_source\<close>
  is \<^verbatim>\<open>self._attr_source\<close> and \<open>o_attr_source_list\<close> is \<^verbatim>\<open>self._attr_source_list\<close>.
  The identity metadata (\<^verbatim>\<open>_attr_unique_id\<close>, \<^verbatim>\<open>_attr_device_info\<close>) is written
  once by the constructor and read by no method; it is left out.
\<close>

record MatrixEntity =
  e_matrix :: nat
  e_attr_state :: "MediaPlayerState option"

record MatrixOutput =
  output_id :: int
  o_matrix :: nat
  o_attr_source_list :: "string list"
  o_attr_state :: "MediaPlayerState option"
  o_attr_source :: "string option"

text \<open>
  Everything the module does to the outside is recorded, in order, in a trace: the calls
  to the logger (level, format string, arguments), the calls to the host platform's
  \<^verbatim>\<open>schedule_update_ha_state\<close> (fire and forget), and the calls that reach the device
  library.
\<close>

datatype level = DEBUG | INFO | WARNING | ERROR

datatype logarg =
    ArgInt int
  | ArgStr string
  | ArgStrList "string list"
  | ArgState "MediaPlayerState option"
  | ArgEntity nat
  | ArgOutput nat

datatype effect =
    Log level string "logarg list"
  | ScheduleUpdateEntity nat
  | ScheduleUpdateOutput nat
  | ChangeSource nat int int
  | Cec nat cec_cmd int
  | TurnOn nat
  | TurnOff nat

record world =
  devices :: "nat \<Rightarrow> MatrixEntity"
  outputs :: "nat \<Rightarrow> MatrixOutput"
  matrices :: "nat \<Rightarrow> Matrix"
  trace :: "effect list"

text \<open>
  \<^verbatim>\<open>MyListener\<close>: \<^verbatim>\<open>matrix_output_entities\<close> is a Python dict from output id to
  entity, kept as an association list in insertion order (the order \<^verbatim>\<open>values()\<close>
  iterates in); \<^verbatim>\<open>matrix_entities\<close> is a list.
\<close>

record MyListener =
  matrix_output_entities :: "(int \<times> nat) list"
  matrix_entities :: "nat list"

section \<open>Python primitives\<close>

text \<open>\<^verbatim>\<open>d[k] = v\<close>: an existing key keeps its position, a new key goes to the end.\<close>

fun dict_set :: "('k \<times> 'v) list \<Rightarrow> 'k \<Rightarrow> 'v \<Rightarrow> ('k \<times> 'v) list" where
  "dict_set [] k v = [(k, v)]"
| "dict_set ((k', v') # d) k v =
     (if k' = k then (k', v) # d else (k', v') # dict_set d k v)"

text \<open>\<^verbatim>\<open>d.get(k)\<close>: the value, or \<^verbatim>\<open>None\<close>.\<close>

fun dict_get :: "('k \<times> 'v) list \<Rightarrow> 'k \<Rightarrow> 'v option" where
  "dict_get [] k = None"
| "dict_get ((k', v') # d) k = (if k' = k then Some v' else dict_get d k)"

text \<open>\<^verbatim>\<open>d.values()\<close>.\<close>

definition dict_values :: "('k \<times> 'v) list \<Rightarrow> 'v list" where
  "dict_values d = map snd d"

definition emit :: "effect \<Rightarrow> world \<Rightarrow> world" where
  "emit e w = w\<lparr>trace := trace w @ [e]\<rparr>"

definition logger :: "level \<Rightarrow> string \<Rightarrow> logarg list \<Rightarrow> world \<Rightarrow> world" where
  "logger lv fmt args w = emit (Log lv fmt args) w"

text \<open>
  \<^verbatim>\<open>self._matrix.send_cec_...(output_id)\<close>: reading a missing attribute raises
  \<^verbatim>\<open>AttributeError\<close> before anything reaches the device; otherwise the call is made
  and returns or raises.
\<close>

definition cec_call :: "nat \<Rightarrow> cec_cmd \<Rightarrow> int \<Rightarrow> world \<Rightarrow> exn option \<times> world" where
  "cec_call m c out w =
     (if has_cec (matrices w m) c
      then (cec_raises (matrices w m) c out, emit (Cec m c out) w)
      else (Some AttributeError, w))"

section \<open>MatrixEntity\<close>

definition MatrixEntity_init :: "nat \<Rightarrow> MatrixEntity" where
  "MatrixEntity_init matrix = \<lparr>e_matrix = matrix, e_attr_state = None\<rparr>"

definition MatrixEntity_set_state :: "nat \<Rightarrow> MediaPlayerState option \<Rightarrow> world \<Rightarrow> world" where
  "MatrixEntity_set_state self state w =
     emit (ScheduleUpdateEntity self)
       (w\<lparr>devices := (devices w)(self := (devices w self)\<lparr>e_attr_state := state\<rparr>)\<rparr>)"

definition MatrixEntity_turn_on :: "nat \<Rightarrow> world \<Rightarrow> world" where
  "MatrixEntity_turn_on self w = emit (TurnOn (e_matrix (devices w self))) w"

definition MatrixEntity_turn_off :: "nat \<Rightarrow> world \<Rightarrow> world" where
  "MatrixEntity_turn_off self w = emit (TurnOff (e_matrix (devices w self))) w"

section \<open>MatrixOutput\<close>

text \<open>
  The constructor; \<^verbatim>\<open>_attr_source\<close> is not assigned there and has the base class's
  default \<^verbatim>\<open>None\<close>.
\<close>

definition MatrixOutput_init :: "int \<Rightarrow> nat \<Rightarrow> world \<Rightarrow> MatrixOutput" where
  "MatrixOutput_init oid matrix w =
     \<lparr>output_id = oid, o_matrix = matrix,
      o_attr_source_list = input_names (matrices w matrix),
      o_attr_state = None, o_attr_source = None\<rparr>"

definition MatrixOutput_set_state :: "nat \<Rightarrow> MediaPlayerState option \<Rightarrow> world \<Rightarrow> world" where
  "MatrixOutput_set_state self state w =
     emit (ScheduleUpdateOutput self)
       (w\<lparr>outputs := (outputs w)(self := (outputs w self)\<lparr>o_attr_state := state\<rparr>)\<rparr>)"

text \<open>
  \<^verbatim>\<open>self._attr_source = self._matrix.inputs_by_id[input_id]\<close>: the subscript raises
  \<^verbatim>\<open>KeyError\<close> on a missing key, before the assignment.
\<close>

definition MatrixOutput_set_source :: "nat \<Rightarrow> int \<Rightarrow> world \<Rightarrow> exn option \<times> world" where
  "MatrixOutput_set_source self input_id w =
     (case inputs_by_id (matrices w (o_matrix (outputs w self))) input_id of
        None \<Rightarrow> (Some (KeyError input_id), w)
      | Some name \<Rightarrow>
          (None,
           emit (ScheduleUpdateOutput self)
             (w\<lparr>outputs := (outputs w)(self := (outputs w self)\<lparr>o_attr_source := Some name\<rparr>)\<rparr>)))"

text \<open>
  \<^verbatim>\<open>input_id = self._matrix.inputs_by_name.get(source)\<close>, then \<^verbatim>\<open>if input_id:\<close>,
  which is Python's truth test: \<^verbatim>\<open>None\<close> and the integer 0 are both false.
\<close>

definition MatrixOutput_select_source :: "nat \<Rightarrow> string \<Rightarrow> world \<Rightarrow> exn option \<times> world" where
  "MatrixOutput_select_source self source w =
     (let this = outputs w self;
          m = o_matrix this;
          rejected = (None, logger ERROR ''Invalid input source: %s, valid sources %s''
                              [ArgStr source, ArgStrList (o_attr_source_list this)] w)
      in case inputs_by_name (matrices w m) source of
           None \<Rightarrow> rejected
         | Some input_id \<Rightarrow>
             if input_id \<noteq> 0
             then (change_source_raises (matrices w m) (output_id this) input_id,
                   emit (ChangeSource m (output_id this) input_id) w)
             else rejected)"

definition MatrixOutput_turn_on :: "nat \<Rightarrow> world \<Rightarrow> exn option \<times> world" where
  "MatrixOutput_turn_on self w =
     (let (r, w') = cec_call (o_matrix (outputs w self)) send_cec_power_on
                      (output_id (outputs w self)) w
      in if r = Some AttributeError
         then (None, logger ERROR ''CEC power on not supported by pyblustream library'' [] w')
         else (r, w'))"

definition MatrixOutput_turn_off :: "nat \<Rightarrow> world \<Rightarrow> exn option \<times> world" where
  "MatrixOutput_turn_off self w =
     (let (r, w') = cec_call (o_matrix (outputs w self)) send_cec_power_off
                      (output_id (outputs w self)) w
      in if r = Some AttributeError
         then (None, logger ERROR ''CEC power off not supported by pyblustream library'' [] w')
         else (r, w'))"

definition MatrixOutput_volume_up :: "nat \<Rightarrow> world \<Rightarrow> exn option \<times> world" where
  "MatrixOutput_volume_up self w =
     (let (r, w') = cec_call (o_matrix (outputs w self)) send_cec_volume_up
                      (output_id (outputs w self)) w
      in if r = Some AttributeError
         then (None, logger ERROR ''CEC volume up not supported by pyblustream library'' [] w')
         else (r, w'))"

definition MatrixOutput_volume_down :: "nat \<Rightarrow> world \<Rightarrow> exn option \<times> world" where
  "MatrixOutput_volume_down self w =
     (let (r, w') = cec_call (o_matrix (outputs w self)) send_cec_volume_down
                      (output_id (outputs w self)) w
      in if r = Some AttributeError
         then (None, logger ERROR ''CEC volume down not supported by pyblustream library'' [] w')
         else (r, w'))"

text \<open>The argument \<^verbatim>\<open>mute\<close> is not read by the body.\<close>

definition MatrixOutput_mute_volume :: "nat \<Rightarrow> bool \<Rightarrow> world \<Rightarrow> exn option \<times> world" where
  "MatrixOutput_mute_volume self mute w =
     (let (r, w') = cec_call (o_matrix (outputs w self)) send_cec_mute
                      (output_id (outputs w self)) w
      in if r = Some AttributeError
         then (None, logger ERROR ''CEC mute not supported by pyblustream library'' [] w')
         else (r, w'))"

section \<open>MyListener\<close>

definition MyListener_init :: MyListener where
  "MyListener_init = \<lparr>matrix_output_entities = [], matrix_entities = []\<rparr>"

definition add_matrix_output_entity :: "MyListener \<Rightarrow> int \<Rightarrow> nat \<Rightarrow> MyListener" where
  "add_matrix_output_entity l oid entity =
     l\<lparr>matrix_output_entities := dict_set (matrix_output_entities l) oid entity\<rparr>"

definition add_matrix_entity :: "MyListener \<Rightarrow> nat \<Rightarrow> MyListener" where
  "add_matrix_entity l entity = l\<lparr>matrix_entities := matrix_entities l @ [entity]\<rparr>"

text \<open>
  \<^verbatim>\<open>if entity:\<close> tests the value \<^verbatim>\<open>get\<close> returned; an entity object defines neither
  \<^verbatim>\<open>__bool__\<close> nor \<^verbatim>\<open>__len__\<close>, so the test fails exactly for \<^verbatim>\<open>None\<close>.
\<close>

definition source_changed :: "MyListener \<Rightarrow> int \<Rightarrow> int \<Rightarrow> world \<Rightarrow> exn option \<times> world" where
  "source_changed l oid input_id w =
     (let w1 = logger DEBUG ''Source changed Output ID %s changed to input ID: %s''
                 [ArgInt oid, ArgInt input_id] w
      in case dict_get (matrix_output_entities l) oid of
           None \<Rightarrow> (None, w1)
         | Some entity \<Rightarrow>
             MatrixOutput_set_source entity input_id
               (logger DEBUG ''Updating entity for source changed'' [] w1))"

text \<open>The body of \<^verbatim>\<open>connected\<close> is its docstring.\<close>

definition connected :: "MyListener \<Rightarrow> world \<Rightarrow> world" where
  "connected l w = w"

text \<open>
  The two loops that \<^verbatim>\<open>disconnected\<close> and \<^verbatim>\<open>power_changed\<close> share: a debug line
  and \<^verbatim>\<open>entity.set_state(state)\<close> for each entity in turn.
\<close>

fun update_matrix_entities :: "nat list \<Rightarrow> MediaPlayerState option \<Rightarrow> world \<Rightarrow> world" where
  "update_matrix_entities [] state w = w"
| "update_matrix_entities (entity # rest) state w =
     update_matrix_entities rest state
       (MatrixEntity_set_state entity state
          (logger DEBUG ''Updating %s'' [ArgEntity entity] w))"

fun update_matrix_output_entities :: "nat list \<Rightarrow> MediaPlayerState option \<Rightarrow> world \<Rightarrow> world" where
  "update_matrix_output_entities [] state w = w"
| "update_matrix_output_entities (entity # rest) state w =
     update_matrix_output_entities rest state
       (MatrixOutput_set_state entity state
          (logger DEBUG ''Updating %s'' [ArgOutput entity] w))"

definition disconnected :: "MyListener \<Rightarrow> world \<Rightarrow> world" where
  "disconnected l w =
     update_matrix_output_entities (dict_values (matrix_output_entities l)) None
       (update_matrix_entities (matrix_entities l) None
          (logger WARNING ''Matrix disconnected'' [] w))"

definition power_changed :: "MyListener \<Rightarrow> string \<Rightarrow> world \<Rightarrow> world" where
  "power_changed l power' w =
     (let state = (if power' = ''ON'' then Some ON
                   else if power' = ''OFF'' then Some OFF
                   else None)
      in update_matrix_output_entities (dict_values (matrix_output_entities l)) state
           (update_matrix_entities (matrix_entities l) state
              (logger INFO ''Power changed to: %s, state: %s'' [ArgStr power', ArgState state] w)))"

text \<open>\<^verbatim>\<open>error\<close> and \<^verbatim>\<open>source_change_requested\<close> have a docstring for a body.\<close>

definition error :: "MyListener \<Rightarrow> string \<Rightarrow> world \<Rightarrow> world" where
  "error l error_message w = w"

definition source_change_requested :: "MyListener \<Rightarrow> int \<Rightarrow> int \<Rightarrow> world \<Rightarrow> world" where
  "source_change_requested l oid input_id w = w"

section \<open>A concrete installation\<close>

text \<open>
  The installation of the specification's end-to-end scenario: inputs 1 (HDMI1) and
  2 (HDMI2), outputs 10 and 11, one entity for the matrix. The matrix entity lives at
  address 1, the output entities at addresses 2 and 3, the Matrix at address 0. The
  installed device library has none of the CEC methods.
\<close>

definition scenario_matrix :: Matrix where
  "scenario_matrix =
     \<lparr>input_names = [''HDMI1'', ''HDMI2''],
      inputs_by_id = [1 \<mapsto> ''HDMI1'', 2 \<mapsto> ''HDMI2''],
      inputs_by_name = [''HDMI1'' \<mapsto> 1, ''HDMI2'' \<mapsto> 2],
      has_cec = (\<lambda>c. False),
      cec_raises = (\<lambda>c out. None),
      change_source_raises = (\<lambda>out inp. None)\<rparr>"

definition scenario_world :: world where
  "scenario_world =
     \<lparr>devices = (\<lambda>a. MatrixEntity_init 0),
      outputs = (\<lambda>a. \<lparr>output_id = (if a = 2 then 10 else 11), o_matrix = 0,
                       o_attr_source_list = [''HDMI1'', ''HDMI2''],
                       o_attr_state = None, o_attr_source = None\<rparr>),
      matrices = (\<lambda>a. scenario_matrix),
      trace = []\<rparr>"

definition scenario_listener :: MyListener where
  "scenario_listener =
     add_matrix_output_entity
       (add_matrix_output_entity (add_matrix_entity MyListener_init 1) 10 2) 11 3"

text \<open>A device whose inputs are numbered from 0.\<close>

definition zero_based_matrix :: Matrix where
  "zero_based_matrix =
     \<lparr>input_names = [''Input 0'', ''Input 1''],
      inputs_by_id = [0 \<mapsto> ''Input 0'', 1 \<mapsto> ''Input 1''],
      inputs_by_name = [''Input 0'' \<mapsto> 0, ''Input 1'' \<mapsto> 1],
      has_cec = (\<lambda>c. True),
      cec_raises = (\<lambda>c out. None),
      change_source_raises = (\<lambda>out inp. None)\<rparr>"

definition zero_based_world :: world where
  "zero_based_world =
     \<lparr>devices = (\<lambda>a. MatrixEntity_init 0),
      outputs = (\<lambda>a. \<lparr>output_id = 1, o_matrix = 0,
                       o_attr_source_list = [''Input 0'', ''Input 1''],
                       o_attr_state = None, o_attr_source = Some ''Input 1''\<rparr>),
      matrices = (\<lambda>a. zero_based_matrix),
      trace = []\<rparr>"

text \<open>
  The same installation with a device library whose CEC methods exist and raise
  \<^verbatim>\<open>AttributeError\<close> from inside the call.
\<close>

definition faulty_cec_world :: world where
  "faulty_cec_world =
     zero_based_world
       \<lparr>matrices := (\<lambda>a. zero_based_matrix\<lparr>cec_raises := (\<lambda>c out. Some AttributeError)\<rparr>)\<rparr>"

section \<open>What the loops do to the store\<close>

lemma emit_devices: "devices (emit e w) = devices w"
  and emit_outputs: "outputs (emit e w) = outputs w"
  and emit_matrices: "matrices (emit e w) = matrices w"
  and emit_trace: "trace (emit e w) = trace w @ [e]"
  by (simp_all add: emit_def)

lemma logger_devices: "devices (logger lv f a w) = devices w"
  and logger_outputs: "outputs (logger lv f a w) = outputs w"
  and logger_matrices: "matrices (logger lv f a w) = matrices w"
  and logger_trace: "trace (logger lv f a w) = trace w @ [Log lv f a]"
  by (simp_all add: logger_def emit_def)

lemma update_matrix_entities_devices:
  "devices (update_matrix_entities es s w) =
     (\<lambda>r. if r \<in> set es then (devices w r)\<lparr>e_attr_state := s\<rparr> else devices w r)"
proof (induction es arbitrary: w)
  case Nil
  show ?case by simp
next
  case (Cons e es)
  show ?case
    by (auto simp: Cons.IH MatrixEntity_set_state_def emit_devices logger_devices fun_eq_iff)
qed

lemma update_matrix_entities_outputs:
  "outputs (update_matrix_entities es s w) = outputs w"
  by (induction es arbitrary: w)
     (simp_all add: MatrixEntity_set_state_def emit_outputs logger_outputs)

lemma update_matrix_entities_matrices:
  "matrices (update_matrix_entities es s w) = matrices w"
  by (induction es arbitrary: w)
     (simp_all add: MatrixEntity_set_state_def emit_matrices logger_matrices)

lemma update_matrix_output_entities_outputs:
  "outputs (update_matrix_output_entities es s w) =
     (\<lambda>r. if r \<in> set es then (outputs w r)\<lparr>o_attr_state := s\<rparr> else outputs w r)"
proof (induction es arbitrary: w)
  case Nil
  show ?case by simp
next
  case (Cons e es)
  show ?case
    by (auto simp: Cons.IH MatrixOutput_set_state_def emit_outputs logger_outputs fun_eq_iff)
qed

lemma update_matrix_output_entities_devices:
  "devices (update_matrix_output_entities es s w) = devices w"
  by (induction es arbitrary: w)
     (simp_all add: MatrixOutput_set_state_def emit_devices logger_devices)

lemma update_matrix_output_entities_matrices:
  "matrices (update_matrix_output_entities es s w) = matrices w"
  by (induction es arbitrary: w)
     (simp_all add: MatrixOutput_set_state_def emit_matrices logger_matrices)

lemma power_changed_devices:
  "devices (power_changed l v w) =
     (\<lambda>r. if r \<in> set (matrix_entities l)
          then (devices w r)\<lparr>e_attr_state :=
                 (if v = ''ON'' then Some ON else if v = ''OFF'' then Some OFF else None)\<rparr>
          else devices w r)"
  by (simp add: power_changed_def Let_def update_matrix_output_entities_devices
        update_matrix_entities_devices logger_devices cong: if_cong)

lemma power_changed_outputs:
  "outputs (power_changed l v w) =
     (\<lambda>r. if r \<in> set (dict_values (matrix_output_entities l))
          then (outputs w r)\<lparr>o_attr_state :=
                 (if v = ''ON'' then Some ON else if v = ''OFF'' then Some OFF else None)\<rparr>
          else outputs w r)"
  by (simp add: power_changed_def Let_def update_matrix_output_entities_outputs
        update_matrix_entities_outputs logger_outputs cong: if_cong)

lemma disconnected_devices:
  "devices (disconnected l w) =
     (\<lambda>r. if r \<in> set (matrix_entities l) then (devices w r)\<lparr>e_attr_state := None\<rparr>
          else devices w r)"
  by (simp add: disconnected_def update_matrix_output_entities_devices
        update_matrix_entities_devices logger_devices cong: if_cong)

lemma disconnected_outputs:
  "outputs (disconnected l w) =
     (\<lambda>r. if r \<in> set (dict_values (matrix_output_entities l))
          then (outputs w r)\<lparr>o_attr_state := None\<rparr>
          else outputs w r)"
  by (simp add: disconnected_def update_matrix_output_entities_outputs
        update_matrix_entities_outputs logger_outputs cong: if_cong)

lemma scenario_listener_eq:
  "scenario_listener = \<lparr>matrix_output_entities = [(10, 2), (11, 3)], matrix_entities = [1]\<rparr>"
  by (simp add: scenario_listener_def add_matrix_output_entity_def add_matrix_entity_def
        MyListener_init_def)

section \<open>Broadcasts: power_changed and disconnected\<close>

text \<open>
  Claim C3. For every listener and every state of the store, \<^verbatim>\<open>power_changed("ON")\<close>
  leaves every entity of \<^verbatim>\<open>matrix_entities\<close> and every entity among the values of
  \<^verbatim>\<open>matrix_output_entities\<close> in state ON, \<^verbatim>\<open>power_changed("OFF")\<close> leaves them
  all in state OFF, and for any other argument they are all left in the unknown state
  \<^verbatim>\<open>None\<close>.
\<close>

theorem power_changed_sets_all:
  "(\<forall>e \<in> set (matrix_entities l).
      e_attr_state (devices (power_changed l ''ON'' w) e) = Some ON) \<and>
   (\<forall>e \<in> set (dict_values (matrix_output_entities l)).
      o_attr_state (outputs (power_changed l ''ON'' w) e) = Some ON) \<and>
   (\<forall>e \<in> set (matrix_entities l).
      e_attr_state (devices (power_changed l ''OFF'' w) e) = Some OFF) \<and>
   (\<forall>e \<in> set (dict_values (matrix_output_entities l)).
      o_attr_state (outputs (power_changed l ''OFF'' w) e) = Some OFF) \<and>
   (v \<noteq> ''ON'' \<and> v \<noteq> ''OFF'' \<longrightarrow>
      (\<forall>e \<in> set (matrix_entities l).
         e_attr_state (devices (power_changed l v w) e) = None) \<and>
      (\<forall>e \<in> set (dict_values (matrix_output_entities l)).
         o_attr_state (outputs (power_changed l v w) e) = None))"
  by (simp add: power_changed_devices power_changed_outputs)

theorem power_changed_sets_all_witness:
  "1 \<in> set (matrix_entities scenario_listener) \<and>
   2 \<in> set (dict_values (matrix_output_entities scenario_listener)) \<and>
   3 \<in> set (dict_values (matrix_output_entities scenario_listener)) \<and>
   e_attr_state (devices (power_changed scenario_listener ''ON'' scenario_world) 1) = Some ON \<and>
   o_attr_state (outputs (power_changed scenario_listener ''ON'' scenario_world) 2) = Some ON \<and>
   o_attr_state (outputs (power_changed scenario_listener ''ON'' scenario_world) 3) = Some ON \<and>
   e_attr_state (devices (power_changed scenario_listener ''OFF'' scenario_world) 1) = Some OFF \<and>
   o_attr_state (outputs (power_changed scenario_listener ''OFF'' scenario_world) 2) = Some OFF \<and>
   o_attr_state (outputs (power_changed scenario_listener ''OFF'' scenario_world) 3) = Some OFF \<and>
   ''on'' \<noteq> ''ON'' \<and> ''on'' \<noteq> ''OFF'' \<and>
   e_attr_state (devices (power_changed scenario_listener ''on'' scenario_world) 1) = None \<and>
   o_attr_state (outputs (power_changed scenario_listener ''on'' scenario_world) 2) = None \<and>
   o_attr_state (outputs (power_changed scenario_listener ''on'' scenario_world) 3) = None"
  using power_changed_sets_all [of scenario_listener scenario_world "''on''"]
  by (simp add: scenario_listener_eq dict_values_def)

text \<open>
  Claim C4. For every listener and every state of the store, \<^verbatim>\<open>disconnected()\<close>
  leaves every entity of \<^verbatim>\<open>matrix_entities\<close> and every entity among the values of
  \<^verbatim>\<open>matrix_output_entities\<close> in the unknown state \<^verbatim>\<open>None\<close>, whatever its state
  was; and a second call right after the first leaves all entity objects as the first
  call left them.
\<close>

theorem disconnected_unknown_idempotent:
  "(\<forall>e \<in> set (matrix_entities l). e_attr_state (devices (disconnected l w) e) = None) \<and>
   (\<forall>e \<in> set (dict_values (matrix_output_entities l)).
      o_attr_state (outputs (disconnected l w) e) = None) \<and>
   devices (disconnected l (disconnected l w)) = devices (disconnected l w) \<and>
   outputs (disconnected l (disconnected l w)) = outputs (disconnected l w)"
  by (auto simp: disconnected_devices disconnected_outputs fun_eq_iff)

theorem disconnected_unknown_idempotent_witness:
  "1 \<in> set (matrix_entities scenario_listener) \<and>
   2 \<in> set (dict_values (matrix_output_entities scenario_listener)) \<and>
   3 \<in> set (dict_values (matrix_output_entities scenario_listener)) \<and>
   e_attr_state (devices (disconnected scenario_listener
       (power_changed scenario_listener ''ON'' scenario_world)) 1) = None \<and>
   o_attr_state (outputs (disconnected scenario_listener
       (power_changed scenario_listener ''ON'' scenario_world)) 2) = None \<and>
   o_attr_state (outputs (disconnected scenario_listener
       (power_changed scenario_listener ''ON'' scenario_world)) 3) = None \<and>
   e_attr_state (devices (power_changed scenario_listener ''ON'' scenario_world) 1) = Some ON \<and>
   o_attr_state (outputs (power_changed scenario_listener ''ON'' scenario_world) 2) = Some ON"
  using disconnected_unknown_idempotent
          [of scenario_listener "power_changed scenario_listener ''ON'' scenario_world"]
  by (simp add: scenario_listener_eq dict_values_def power_changed_devices power_changed_outputs)

section \<open>connected\<close>

text \<open>
  Claim C8. For every listener and every state of the store, \<^verbatim>\<open>connected()\<close>
  changes nothing: no entity changes, nothing is logged, no update is scheduled.
\<close>

theorem connected_no_change: "connected l w = w"
  by (simp add: connected_def)

section \<open>source_changed and set_source\<close>



text \<open>
  Claim C1. When output id \<open>oid\<close> is registered with entity \<open>e\<close> and \<open>input_id\<close> is
  in the input catalog of the entity's Matrix with display name \<open>name\<close>,
  \<^verbatim>\<open>source_changed(oid, input_id)\<close> returns normally and the entity's displayed source
  is \<open>name\<close>. When no entity is registered for \<open>oid\<close>, the call returns normally and
  no entity object, output or matrix entity, has changed.
\<close>

theorem source_changed_delivers:
  "(dict_get (matrix_output_entities l) oid = Some e \<and>
    inputs_by_id (matrices w (o_matrix (outputs w e))) input_id = Some name \<longrightarrow>
      fst (source_changed l oid input_id w) = None \<and>
      o_attr_source (outputs (snd (source_changed l oid input_id w)) e) = Some name) \<and>
   (dict_get (matrix_output_entities l) oid = None \<longrightarrow>
      fst (source_changed l oid input_id w) = None \<and>
      outputs (snd (source_changed l oid input_id w)) = outputs w \<and>
      devices (snd (source_changed l oid input_id w)) = devices w)"
  by (simp add: source_changed_def Let_def MatrixOutput_set_source_def
        logger_outputs logger_devices logger_matrices emit_outputs)

theorem source_changed_delivers_witness:
  "dict_get (matrix_output_entities scenario_listener) 10 = Some 2 \<and>
   inputs_by_id (matrices scenario_world (o_matrix (outputs scenario_world 2))) 1 = Some ''HDMI1'' \<and>
   fst (source_changed scenario_listener 10 1 scenario_world) = None \<and>
   o_attr_source (outputs (snd (source_changed scenario_listener 10 1 scenario_world)) 2)
     = Some ''HDMI1'' \<and>
   dict_get (matrix_output_entities scenario_listener) 12 = None \<and>
   fst (source_changed scenario_listener 12 1 scenario_world) = None \<and>
   outputs (snd (source_changed scenario_listener 12 1 scenario_world)) = outputs scenario_world \<and>
   devices (snd (source_changed scenario_listener 12 1 scenario_world)) = devices scenario_world"
  using source_changed_delivers [of scenario_listener 10 2 scenario_world 1 "''HDMI1''"]
        source_changed_delivers [of scenario_listener 12 2 scenario_world 1 "''HDMI1''"]
  by (simp add: scenario_listener_eq scenario_world_def scenario_matrix_def)

text \<open>
  What \<^verbatim>\<open>set_source\<close> does with an input id that is not a key of
  \<^verbatim>\<open>inputs_by_id\<close>: the subscript raises \<^verbatim>\<open>KeyError\<close> before the assignment,
  so the exception goes to the caller and the store and the trace are as they were.
\<close>

lemma set_source_unknown_id_raises:
  "inputs_by_id (matrices w (o_matrix (outputs w self))) input_id = None \<Longrightarrow>
   MatrixOutput_set_source self input_id w = (Some (KeyError input_id), w)"
  by (simp add: MatrixOutput_set_source_def)

text \<open>
  Claim C2. The claim asks that \<^verbatim>\<open>set_source\<close> with an input id missing from the
  catalog logs the failure and does not throw. The code does not do that: in the
  scenario, input id 7 is not in the catalog, \<^verbatim>\<open>set_source(7)\<close> on the entity of
  output 10 raises \<^verbatim>\<open>KeyError\<close> and logs nothing, and the event
  \<^verbatim>\<open>source_changed(10, 7)\<close> lets the exception out of the listener after its two
  debug lines. The lookups beside it are guarded: \<^verbatim>\<open>source_changed\<close> reads the
  output id of the same event with \<^verbatim>\<open>get\<close> and a truth test, and
  \<^verbatim>\<open>select_source\<close> reads the name with \<^verbatim>\<open>get\<close> and logs an error.
\<close>

theorem set_source_unknown_id_escapes:
  "inputs_by_id (matrices scenario_world (o_matrix (outputs scenario_world 2))) 7 = None \<and>
   MatrixOutput_set_source 2 7 scenario_world = (Some (KeyError 7), scenario_world) \<and>
   dict_get (matrix_output_entities scenario_listener) 10 = Some 2 \<and>
   source_changed scenario_listener 10 7 scenario_world =
     (Some (KeyError 7),
      scenario_world\<lparr>trace :=
        [Log DEBUG ''Source changed Output ID %s changed to input ID: %s'' [ArgInt 10, ArgInt 7],
         Log DEBUG ''Updating entity for source changed'' []]\<rparr>)"
  by (simp add: MatrixOutput_set_source_def source_changed_def Let_def logger_def emit_def
        scenario_listener_eq scenario_world_def scenario_matrix_def)



section \<open>The actions of an output\<close>

text \<open>
  Claim C5. For every output entity and every source name that is not a key of
  \<^verbatim>\<open>inputs_by_name\<close>, \<^verbatim>\<open>select_source(name)\<close> returns normally and its only
  effect is one line logged at error level: no call reaches the device and the displayed
  source is unchanged.
\<close>

theorem select_source_unknown_name:
  "inputs_by_name (matrices w (o_matrix (outputs w self))) source = None \<Longrightarrow>
   MatrixOutput_select_source self source w =
     (None, w\<lparr>trace := trace w @
        [Log ERROR ''Invalid input source: %s, valid sources %s''
           [ArgStr source, ArgStrList (o_attr_source_list (outputs w self))]]\<rparr>)"
  by (simp add: MatrixOutput_select_source_def Let_def logger_def emit_def)

theorem select_source_unknown_name_witness:
  "inputs_by_name (matrices scenario_world (o_matrix (outputs scenario_world 2))) ''HDMI3'' = None \<and>
   MatrixOutput_select_source 2 ''HDMI3'' scenario_world =
     (None, scenario_world\<lparr>trace :=
        [Log ERROR ''Invalid input source: %s, valid sources %s''
           [ArgStr ''HDMI3'', ArgStrList [''HDMI1'', ''HDMI2'']]]\<rparr>)"
  using select_source_unknown_name [of scenario_world 2 "''HDMI3''"]
  by (simp add: scenario_world_def scenario_matrix_def)

text \<open>
  Claim C9. For every output entity and every source name that \<^verbatim>\<open>inputs_by_name\<close>
  maps to the input id 0, \<^verbatim>\<open>select_source(name)\<close> takes the rejection branch: it
  returns normally and its only effect is the error line, no \<^verbatim>\<open>change_source\<close> call
  is made, although the name is a key of the table.
\<close>

theorem select_source_id_zero_rejected:
  "inputs_by_name (matrices w (o_matrix (outputs w self))) source = Some 0 \<Longrightarrow>
   MatrixOutput_select_source self source w =
     (None, w\<lparr>trace := trace w @
        [Log ERROR ''Invalid input source: %s, valid sources %s''
           [ArgStr source, ArgStrList (o_attr_source_list (outputs w self))]]\<rparr>)"
  by (simp add: MatrixOutput_select_source_def Let_def logger_def emit_def)

theorem select_source_id_zero_rejected_witness:
  "inputs_by_name (matrices zero_based_world (o_matrix (outputs zero_based_world 2))) ''Input 0'' = Some 0 \<and>
   MatrixOutput_select_source 2 ''Input 0'' zero_based_world =
     (None, zero_based_world\<lparr>trace :=
        [Log ERROR ''Invalid input source: %s, valid sources %s''
           [ArgStr ''Input 0'', ArgStrList [''Input 0'', ''Input 1'']]]\<rparr>)"
  using select_source_id_zero_rejected [of zero_based_world 2 "''Input 0''"]
  by (simp add: zero_based_world_def zero_based_matrix_def)

text \<open>
  Claim C6. For every output entity, when the device library lacks the CEC method that
  \<^verbatim>\<open>turn_on\<close>, \<^verbatim>\<open>turn_off\<close>, \<^verbatim>\<open>volume_up\<close>, \<^verbatim>\<open>volume_down\<close> or
  \<^verbatim>\<open>mute_volume\<close> calls, the action returns normally and its only effect is one line
  logged at error level. In no case does any of the five actions let an
  \<^verbatim>\<open>AttributeError\<close> reach its caller.
\<close>

theorem cec_actions_unsupported:
  "(\<not> has_cec (matrices w (o_matrix (outputs w self))) send_cec_power_on \<longrightarrow>
      MatrixOutput_turn_on self w =
        (None, w\<lparr>trace := trace w @
           [Log ERROR ''CEC power on not supported by pyblustream library'' []]\<rparr>)) \<and>
   (\<not> has_cec (matrices w (o_matrix (outputs w self))) send_cec_power_off \<longrightarrow>
      MatrixOutput_turn_off self w =
        (None, w\<lparr>trace := trace w @
           [Log ERROR ''CEC power off not supported by pyblustream library'' []]\<rparr>)) \<and>
   (\<not> has_cec (matrices w (o_matrix (outputs w self))) send_cec_volume_up \<longrightarrow>
      MatrixOutput_volume_up self w =
        (None, w\<lparr>trace := trace w @
           [Log ERROR ''CEC volume up not supported by pyblustream library'' []]\<rparr>)) \<and>
   (\<not> has_cec (matrices w (o_matrix (outputs w self))) send_cec_volume_down \<longrightarrow>
      MatrixOutput_volume_down self w =
        (None, w\<lparr>trace := trace w @
           [Log ERROR ''CEC volume down not supported by pyblustream library'' []]\<rparr>)) \<and>
   (\<not> has_cec (matrices w (o_matrix (outputs w self))) send_cec_mute \<longrightarrow>
      MatrixOutput_mute_volume self mute w =
        (None, w\<lparr>trace := trace w @
           [Log ERROR ''CEC mute not supported by pyblustream library'' []]\<rparr>)) \<and>
   fst (MatrixOutput_turn_on self w) \<noteq> Some AttributeError \<and>
   fst (MatrixOutput_turn_off self w) \<noteq> Some AttributeError \<and>
   fst (MatrixOutput_volume_up self w) \<noteq> Some AttributeError \<and>
   fst (MatrixOutput_volume_down self w) \<noteq> Some AttributeError \<and>
   fst (MatrixOutput_mute_volume self mute w) \<noteq> Some AttributeError"
  by (simp add: MatrixOutput_turn_on_def MatrixOutput_turn_off_def MatrixOutput_volume_up_def
        MatrixOutput_volume_down_def MatrixOutput_mute_volume_def cec_call_def
        logger_def emit_def)

theorem cec_actions_unsupported_witness:
  "\<not> has_cec (matrices scenario_world (o_matrix (outputs scenario_world 2))) send_cec_power_on \<and>
   \<not> has_cec (matrices scenario_world (o_matrix (outputs scenario_world 2))) send_cec_power_off \<and>
   \<not> has_cec (matrices scenario_world (o_matrix (outputs scenario_world 2))) send_cec_volume_up \<and>
   \<not> has_cec (matrices scenario_world (o_matrix (outputs scenario_world 2))) send_cec_volume_down \<and>
   \<not> has_cec (matrices scenario_world (o_matrix (outputs scenario_world 2))) send_cec_mute \<and>
   MatrixOutput_turn_on 2 scenario_world =
     (None, scenario_world\<lparr>trace :=
        [Log ERROR ''CEC power on not supported by pyblustream library'' []]\<rparr>) \<and>
   MatrixOutput_turn_off 2 scenario_world =
     (None, scenario_world\<lparr>trace :=
        [Log ERROR ''CEC power off not supported by pyblustream library'' []]\<rparr>) \<and>
   MatrixOutput_volume_up 2 scenario_world =
     (None, scenario_world\<lparr>trace :=
        [Log ERROR ''CEC volume up not supported by pyblustream library'' []]\<rparr>) \<and>
   MatrixOutput_volume_down 2 scenario_world =
     (None, scenario_world\<lparr>trace :=
        [Log ERROR ''CEC volume down not supported by pyblustream library'' []]\<rparr>) \<and>
   MatrixOutput_mute_volume 2 True scenario_world =
     (None, scenario_world\<lparr>trace :=
        [Log ERROR ''CEC mute not supported by pyblustream library'' []]\<rparr>)"
  using cec_actions_unsupported [of scenario_world 2 True]
  by (simp add: scenario_world_def scenario_matrix_def)

text \<open>
  Claim C10. For every output entity and every two values of the argument,
  \<^verbatim>\<open>mute_volume(m1)\<close> and \<^verbatim>\<open>mute_volume(m2)\<close> have the same outcome and the same
  effects, and what they do is the call \<^verbatim>\<open>send_cec_mute\<close> on this output's id: when
  the method exists, exactly that one call reaches the device, and the action returns
  what the call returns (or, when the call raises \<^verbatim>\<open>AttributeError\<close>, logs one
  error line and returns normally); when the method is missing, nothing reaches the
  device and the error line is the only effect.
\<close>

theorem mute_volume_ignores_argument:
  "MatrixOutput_mute_volume self m1 w = MatrixOutput_mute_volume self m2 w \<and>
   (has_cec (matrices w (o_matrix (outputs w self))) send_cec_mute \<and>
    cec_raises (matrices w (o_matrix (outputs w self))) send_cec_mute
      (output_id (outputs w self)) \<noteq> Some AttributeError \<longrightarrow>
      MatrixOutput_mute_volume self m1 w =
        (cec_raises (matrices w (o_matrix (outputs w self))) send_cec_mute
           (output_id (outputs w self)),
         w\<lparr>trace := trace w @
            [Cec (o_matrix (outputs w self)) send_cec_mute (output_id (outputs w self))]\<rparr>)) \<and>
   (has_cec (matrices w (o_matrix (outputs w self))) send_cec_mute \<and>
    cec_raises (matrices w (o_matrix (outputs w self))) send_cec_mute
      (output_id (outputs w self)) = Some AttributeError \<longrightarrow>
      MatrixOutput_mute_volume self m1 w =
        (None,
         w\<lparr>trace := trace w @
            [Cec (o_matrix (outputs w self)) send_cec_mute (output_id (outputs w self)),
             Log ERROR ''CEC mute not supported by pyblustream library'' []]\<rparr>)) \<and>
   (\<not> has_cec (matrices w (o_matrix (outputs w self))) send_cec_mute \<longrightarrow>
      MatrixOutput_mute_volume self m1 w =
        (None,
         w\<lparr>trace := trace w @
            [Log ERROR ''CEC mute not supported by pyblustream library'' []]\<rparr>))"
  by (simp add: MatrixOutput_mute_volume_def cec_call_def logger_def emit_def)

theorem mute_volume_ignores_argument_witness:
  "has_cec (matrices zero_based_world (o_matrix (outputs zero_based_world 2))) send_cec_mute \<and>
   cec_raises (matrices zero_based_world (o_matrix (outputs zero_based_world 2))) send_cec_mute
     (output_id (outputs zero_based_world 2)) \<noteq> Some AttributeError \<and>
   MatrixOutput_mute_volume 2 True zero_based_world =
     (None, zero_based_world\<lparr>trace := [Cec 0 send_cec_mute 1]\<rparr>) \<and>
   MatrixOutput_mute_volume 2 False zero_based_world =
     (None, zero_based_world\<lparr>trace := [Cec 0 send_cec_mute 1]\<rparr>) \<and>
   has_cec (matrices faulty_cec_world (o_matrix (outputs faulty_cec_world 2))) send_cec_mute \<and>
   cec_raises (matrices faulty_cec_world (o_matrix (outputs faulty_cec_world 2))) send_cec_mute
     (output_id (outputs faulty_cec_world 2)) = Some AttributeError \<and>
   MatrixOutput_mute_volume 2 True faulty_cec_world =
     (None, faulty_cec_world\<lparr>trace :=
        [Cec 0 send_cec_mute 1,
         Log ERROR ''CEC mute not supported by pyblustream library'' []]\<rparr>) \<and>
   MatrixOutput_mute_volume 2 False faulty_cec_world =
     MatrixOutput_mute_volume 2 True faulty_cec_world \<and>
   \<not> has_cec (matrices scenario_world (o_matrix (outputs scenario_world 3))) send_cec_mute \<and>
   MatrixOutput_mute_volume 3 False scenario_world =
     (None, scenario_world\<lparr>trace :=
        [Log ERROR ''CEC mute not supported by pyblustream library'' []]\<rparr>)"
  using mute_volume_ignores_argument [of 2 True zero_based_world False]
        mute_volume_ignores_argument [of 2 True faulty_cec_world False]
        mute_volume_ignores_argument [of 3 False scenario_world True]
  by (simp add: MatrixOutput_mute_volume_def cec_call_def logger_def emit_def
        zero_based_world_def zero_based_matrix_def faulty_cec_world_def
        scenario_world_def scenario_matrix_def)

end
